theory Spec2Isabelle
  imports Main
begin

section \<open>The Juju plugin of ogc: data model\<close>

text \<open>
  The plugin (class \<open>Juju\<close> of \<open>ogc_plugins_juju.py\<close>) reads a tree of options through
  \<open>self.opt(key)\<close> and drives external programs: \<open>juju\<close>, \<open>charm\<close> and
  \<open>juju-wait\<close> through the \<open>sh\<close> library, a script through \<open>sh.env\<close>, and the
  deploy command line through \<open>cmd_ok\<close>. Nothing else is observable from outside, so the
  model threads a world that records, in order, every external command issued, every file
  written and every file made executable.
\<close>

subsection \<open>Option values\<close>

text \<open>
  One field per key the plugin looks up, holding what \<open>self.opt\<close> returns. A string
  option that is absent is \<open>None\<close>; flags are the truth value of the option; lists that
  are absent are empty (Python tests all of these by truthiness only). \<open>cloud\<close>,
  \<open>controller\<close> and \<open>model\<close> are required keys.
\<close>

record options =
  opt_cloud :: string
  opt_controller :: string
  opt_model :: string
  opt_force :: bool
  opt_bootstrap :: bool
  opt_bootstrap_constraints :: "string option"
  opt_bootstrap_config :: "string list"
  opt_bootstrap_model_default :: "string list"
  opt_bootstrap_debug :: bool
  opt_bootstrap_run :: "string option"
  opt_bootstrap_disable_add_model :: bool
  opt_bootstrap_replace_controller :: bool
  opt_bootstrap_series :: "string option"
  opt_deploy :: bool
  opt_deploy_reuse :: bool
  opt_deploy_bundle :: "string option"
  opt_deploy_charm :: "string option"
  opt_deploy_overlay :: "string option"
  opt_deploy_series :: "string option"
  opt_deploy_channel :: "string option"
  opt_deploy_constraints :: "string option"
  opt_deploy_wait :: bool
  opt_deploy_timeout :: "int option"
  opt_config :: "string list"
  opt_teardown :: bool

text \<open>Python truthiness of an optional string: \<open>None\<close> and \<open>""\<close> are both false.\<close>

fun truthy :: "string option \<Rightarrow> bool" where
  "truthy None = False"
| "truthy (Some s) = (s \<noteq> [])"

subsection \<open>External commands, their outcomes, exceptions\<close>

datatype command =
    ShJuju "string list"
  | ShCharm "string list"
  | ShJujuWait "string list" "int option"
  | ShEnv string
  | CmdOk string

text \<open>
  \<open>ShJuju args\<close> is \<open>sh.juju(*args)\<close>, \<open>ShCharm args\<close> is \<open>sh.charm(*args)\<close>,
  \<open>ShJujuWait args t\<close> is \<open>sh.juju_wait(*args, _timeout=t)\<close>, \<open>ShEnv p\<close> is
  \<open>sh.env(p)\<close> and \<open>CmdOk line\<close> is \<open>cmd_ok(line, shell=True)\<close>.
  A command either exits with status 0 or with a non-zero status, its captured output and
  its captured error text; \<open>sh\<close> turns the latter into \<open>sh.ErrorReturnCode_<n>\<close>,
  \<open>cmd_ok\<close> into a result whose \<open>ok\<close> is false. The expiry of the \<open>_timeout\<close> of
  \<open>juju-wait\<close> is not modelled.
\<close>

datatype outcome = Ok | ErrorReturnCode nat string string

text \<open>
  \<open>SpecProcessException msg diag\<close> carries the literal part of the message and the raw
  diagnostic text that the source interpolates after it (decoded, sometimes stripped).
\<close>

datatype exn =
    SpecConfigException string
  | SpecProcessException string string
  | ShErrorReturnCode nat string string
  | ValueError
  | TypeError
  | AttributeError

record world =
  ops :: "command list"
  files :: "(string \<times> string) list"
  executables :: "string list"

text \<open>
  The environment answers every command, given the commands issued before it, and
  supplies the values the plugin takes from the operating system: the path of the next
  \<open>tempfile.mkstemp()\<close> (by the number of files written so far), the temporary
  directory and the text of the next \<open>uuid.uuid4()\<close>.
\<close>

record environment =
  runner :: "command list \<Rightarrow> command \<Rightarrow> outcome"
  mkstemp :: "nat \<Rightarrow> string"
  gettempdir :: string
  uuid4 :: string

type_synonym 'a result = "(exn + 'a) \<times> world"

definition call :: "environment \<Rightarrow> command \<Rightarrow> world \<Rightarrow> outcome \<times> world" where
  "call env c w = (runner env (ops w) c, w\<lparr>ops := ops w @ [c]\<rparr>)"

subsection \<open>Sequencing\<close>

text \<open>Statement after statement: an exception of the first ends the sequence.\<close>

definition skip :: "world \<Rightarrow> unit result" where
  "skip w = (Inr (), w)"

definition seq :: "(world \<Rightarrow> unit result) \<Rightarrow> (world \<Rightarrow> unit result) \<Rightarrow> world \<Rightarrow> unit result" where
  "seq f g w = (case f w of (Inl e, w') \<Rightarrow> (Inl e, w') | (Inr u, w') \<Rightarrow> g w')"

definition when_do :: "bool \<Rightarrow> (world \<Rightarrow> unit result) \<Rightarrow> world \<Rightarrow> unit result" where
  "when_do b f = (if b then f else skip)"

subsection \<open>Strings\<close>

text \<open>\<open>s.split(c)\<close> for a one-character separator: one piece more than separators.\<close>

fun split_on :: "char \<Rightarrow> string \<Rightarrow> string list" where
  "split_on c [] = [[]]"
| "split_on c (x # xs) =
     (if x = c then [] # split_on c xs
      else (case split_on c xs of [] \<Rightarrow> [[x]] | p # ps \<Rightarrow> (x # p) # ps))"

text \<open>\<open>' '.join(xs)\<close>.\<close>

fun join_sp :: "string list \<Rightarrow> string" where
  "join_sp [] = []"
| "join_sp [x] = x"
| "join_sp (x # y # ys) = x @ '' '' @ join_sp (y # ys)"

definition startswith :: "string \<Rightarrow> string \<Rightarrow> bool" where
  "startswith s p = (take (length p) s = p)"

definition single_quoted :: "string \<Rightarrow> string" where
  "single_quoted s = [CHR 0x27] @ s @ [CHR 0x27]"

section \<open>The operations of \<open>ogc_plugins_juju.py\<close>\<close>

definition fmt_controller_model :: "options \<Rightarrow> string" where
  "fmt_controller_model i = opt_controller i @ '':'' @ opt_model i"

subsection \<open>\<open>_run\<close>\<close>

definition Juju_run :: "environment \<Rightarrow> string \<Rightarrow> world \<Rightarrow> unit result" where
  "Juju_run env script_data w =
     (let tmp_script_path = mkstemp env (length (files w));
          w1 = w\<lparr>files := files w @ [(tmp_script_path, script_data)]\<rparr>;
          w2 = w1\<lparr>executables := executables w1 @ [tmp_script_path]\<rparr>;
          (r, w3) = call env (ShEnv tmp_script_path) w2
      in case r of
           Ok \<Rightarrow> (Inr (), w3)
         | ErrorReturnCode n out err \<Rightarrow>
             (Inl (SpecProcessException ''Failure to bootstrap: '' err), w3))"

subsection \<open>\<open>_deploy\<close>\<close>

text \<open>
  Lines 276 to 300: the deploy target. A charm wins; a charmstore bundle is pulled first;
  anything else is passed as it is. In the last branch a bundle that is \<open>None\<close> sits in
  the argument list until \<open>' '.join\<close> raises \<open>TypeError\<close>; nothing is issued or
  written in between (the overlay needs a bundle), so the model raises at once.
\<close>

definition charm_pull_path :: "environment \<Rightarrow> string" where
  "charm_pull_path env = gettempdir env @ ''/'' @ last (split_on CHR ''-'' (uuid4 env))"

definition charm_pull_args :: "environment \<Rightarrow> options \<Rightarrow> string list" where
  "charm_pull_args env i =
     [the (opt_deploy_bundle i)] @
     (if truthy (opt_deploy_channel i)
      then [''--channel'', the (opt_deploy_channel i), charm_pull_path env]
      else [])"

definition deploy_target :: "environment \<Rightarrow> options \<Rightarrow> world \<Rightarrow> (string list) result" where
  "deploy_target env i w =
     (if truthy (opt_deploy_charm i)
      then (Inr [''-m'', fmt_controller_model i, the (opt_deploy_charm i)], w)
      else if truthy (opt_deploy_bundle i) \<and> startswith (the (opt_deploy_bundle i)) ''cs:''
      then (let (r, w1) = call env (ShCharm (''pull'' # charm_pull_args env i)) w
            in case r of
                 Ok \<Rightarrow>
                   (Inr [''-m'', fmt_controller_model i, charm_pull_path env @ ''/bundle.yaml''],
                    w1)
               | ErrorReturnCode n out err \<Rightarrow> (Inl (ShErrorReturnCode n out err), w1))
      else (case opt_deploy_bundle i of
              None \<Rightarrow> (Inl TypeError, w)
            | Some bundle \<Rightarrow> (Inr [''-m'', fmt_controller_model i, bundle], w)))"

text \<open>Lines 302 to 308: the overlay is written to a fresh file, for a bundle only.\<close>

definition deploy_overlay :: "environment \<Rightarrow> options \<Rightarrow> string list \<Rightarrow> world \<Rightarrow> string list \<times> world" where
  "deploy_overlay env i args w =
     (if truthy (opt_deploy_bundle i) \<and> truthy (opt_deploy_overlay i)
      then (let tmp_file_path = mkstemp env (length (files w))
            in (args @ [''--overlay'', tmp_file_path],
                w\<lparr>files := files w @ [(tmp_file_path, the (opt_deploy_overlay i))]\<rparr>))
      else (args, w))"

text \<open>Lines 309 to 319.\<close>

definition deploy_flags :: "options \<Rightarrow> string list" where
  "deploy_flags i =
     (if truthy (opt_deploy_channel i) then [''--channel'', the (opt_deploy_channel i)] else []) @
     (if truthy (opt_deploy_constraints i)
      then [''--constraints'', single_quoted (the (opt_deploy_constraints i))] else []) @
     (if truthy (opt_deploy_series i) then [''--series'', the (opt_deploy_series i)] else []) @
     (if opt_force i then [''--force''] else [])"

text \<open>
  The argument list as it stands at line 320, with the world after the overlay. When
  \<open>cmd_ok\<close> reports a failure the exception's message interpolates this list and the
  result object; the model keeps the list.
\<close>

definition deploy_cmd_args :: "environment \<Rightarrow> options \<Rightarrow> world \<Rightarrow> (string list) result" where
  "deploy_cmd_args env i w =
     (case deploy_target env i w of
        (Inl e, w1) \<Rightarrow> (Inl e, w1)
      | (Inr args, w1) \<Rightarrow>
          (let (args2, w2) = deploy_overlay env i args w1
           in (Inr (args2 @ deploy_flags i), w2)))"

definition deploy_command :: "string list \<Rightarrow> command" where
  "deploy_command args = CmdOk (''juju deploy '' @ join_sp args)"

definition Juju_deploy :: "environment \<Rightarrow> options \<Rightarrow> world \<Rightarrow> unit result" where
  "Juju_deploy env i w =
     (case deploy_cmd_args env i w of
        (Inl e, w1) \<Rightarrow> (Inl e, w1)
      | (Inr args, w1) \<Rightarrow>
          (let (r, w2) = call env (deploy_command args) w1
           in case r of
                Ok \<Rightarrow> (Inr (), w2)
              | ErrorReturnCode n out err \<Rightarrow>
                  (Inl (SpecProcessException ''Failed to deploy'' (join_sp args)), w2)))"

subsection \<open>\<open>_teardown\<close>\<close>

definition teardown_command :: "options \<Rightarrow> command" where
  "teardown_command i =
     ShJuju [''destroy-controller'', ''--destroy-all-models'', ''--destroy-storage'', ''-y'',
             opt_controller i]"

text \<open>\<open>sh.ErrorReturnCode\<close> is caught and logged: the method never raises.\<close>

definition Juju_teardown :: "environment \<Rightarrow> options \<Rightarrow> world \<Rightarrow> unit result" where
  "Juju_teardown env i w =
     (let (r, w1) = call env (teardown_command i) w
      in case r of
           Ok \<Rightarrow> (Inr (), w1)
         | ErrorReturnCode n out err \<Rightarrow> (Inr (), w1))"

subsection \<open>\<open>_add_model\<close>\<close>

definition add_model_command :: "options \<Rightarrow> command" where
  "add_model_command i =
     ShJuju [''add-model'', ''-c'', opt_controller i, opt_model i, opt_cloud i]"

definition Juju_add_model :: "environment \<Rightarrow> options \<Rightarrow> world \<Rightarrow> unit result" where
  "Juju_add_model env i w =
     (let (r, w1) = call env (add_model_command i) w
      in case r of
           Ok \<Rightarrow> (Inr (), w1)
         | ErrorReturnCode n out err \<Rightarrow>
             (Inl (SpecProcessException ''Failed to add model: '' err), w1))"

subsection \<open>\<open>_bootstrap\<close>\<close>

definition bootstrap_cmd_args :: "options \<Rightarrow> string list" where
  "bootstrap_cmd_args i =
     [''bootstrap'', opt_cloud i, opt_controller i] @
     (if truthy (opt_bootstrap_constraints i)
      then [''--bootstrap-constraints'', the (opt_bootstrap_constraints i)] else []) @
     (if truthy (opt_bootstrap_series i)
      then [''--bootstrap-series'', the (opt_bootstrap_series i)] else []) @
     (if opt_force i then [''--force''] else []) @
     concat (map (\<lambda>m_default. [''--model-default'', m_default]) (opt_bootstrap_model_default i)) @
     concat (map (\<lambda>c_default. [''--config'', c_default]) (opt_bootstrap_config i)) @
     (if opt_bootstrap_debug i then [''--debug''] else [])"

definition bootstrap_command :: "options \<Rightarrow> command" where
  "bootstrap_command i = ShJuju (bootstrap_cmd_args i)"

text \<open>Lines 354 to 396: the bootstrap command itself.\<close>

definition bootstrap_controller :: "environment \<Rightarrow> options \<Rightarrow> world \<Rightarrow> unit result" where
  "bootstrap_controller env i w =
     (let (r, w1) = call env (bootstrap_command i) w
      in case r of
           Ok \<Rightarrow> (Inr (), w1)
         | ErrorReturnCode n out err \<Rightarrow>
             (Inl (SpecProcessException ''Unable to bootstrap:'' out), w1))"

text \<open>
  Lines 398 to 413 repeat the body of \<open>_add_model\<close> word for word, under
  \<open>not disable_add_model\<close>.
\<close>

definition Juju_bootstrap :: "environment \<Rightarrow> options \<Rightarrow> world \<Rightarrow> unit result" where
  "Juju_bootstrap env i =
     seq (when_do (opt_bootstrap_replace_controller i) (Juju_teardown env i))
       (seq (bootstrap_controller env i)
          (when_do (\<not> opt_bootstrap_disable_add_model i) (Juju_add_model env i)))"

subsection \<open>\<open>_wait\<close>\<close>

definition deploy_timeout :: "options \<Rightarrow> int" where
  "deploy_timeout i =
     (case opt_deploy_timeout i of None \<Rightarrow> 7200 | Some t \<Rightarrow> if t \<noteq> 0 then t else 7200)"

definition wait_command :: "options \<Rightarrow> command" where
  "wait_command i =
     ShJujuWait [''-e'', fmt_controller_model i, ''-w'', ''-r3''] (Some (deploy_timeout i))"

definition Juju_wait :: "environment \<Rightarrow> options \<Rightarrow> world \<Rightarrow> unit result" where
  "Juju_wait env i w =
     (if opt_deploy_wait i
      then (let (r, w1) = call env (wait_command i) w
            in case r of
                 Ok \<Rightarrow> (Inr (), w1)
               | ErrorReturnCode n out err \<Rightarrow>
                   (Inl (SpecProcessException
                           ''Failed to get a completed deployment status: '' err), w1))
      else (Inr (), w))"

subsection \<open>\<open>process\<close> and \<open>conflicts\<close>\<close>

definition config_command :: "string \<Rightarrow> string \<Rightarrow> string \<Rightarrow> command" where
  "config_command cm app_name setting = ShJuju [''config'', ''-m'', cm, app_name, setting]"

text \<open>
  Lines 478 to 483, with \<open>cm\<close> the value of \<open>self._fmt_controller_model\<close>:
  \<open>app_name, setting = config.split(" ")\<close> raises \<open>ValueError\<close> unless there are
  exactly two pieces; \<open>self.juju.config\<close> is not guarded, so a failing command leaves
  the loop, and \<open>process\<close>, as \<open>sh.ErrorReturnCode\<close>.
\<close>

fun config_loop :: "environment \<Rightarrow> string \<Rightarrow> string list \<Rightarrow> world \<Rightarrow> unit result" where
  "config_loop env cm [] w = (Inr (), w)"
| "config_loop env cm (config # rest) w =
     (case split_on CHR '' '' config of
        [app_name, setting] \<Rightarrow>
          (let (r, w1) = call env (config_command cm app_name setting) w
           in case r of
                Ok \<Rightarrow> config_loop env cm rest w1
              | ErrorReturnCode n out err \<Rightarrow> (Inl (ShErrorReturnCode n out err), w1))
      | _ \<Rightarrow> (Inl ValueError, w))"

definition Juju_process :: "environment \<Rightarrow> options \<Rightarrow> world \<Rightarrow> unit result" where
  "Juju_process env i =
     (if truthy (opt_bootstrap_run i) then Juju_run env (the (opt_bootstrap_run i))
      else
        seq (when_do (\<not> opt_deploy_reuse i \<and> opt_bootstrap i) (Juju_bootstrap env i))
          (seq (when_do (opt_deploy i)
                  (seq (when_do (opt_bootstrap_disable_add_model i) (Juju_add_model env i))
                     (seq (Juju_deploy env i)
                        (seq (config_loop env (fmt_controller_model i) (opt_config i))
                           (Juju_wait env i)))))
             (when_do (opt_teardown i) (Juju_teardown env i))))"

definition Juju_conflicts :: "options \<Rightarrow> world \<Rightarrow> unit result" where
  "Juju_conflicts i w =
     (if truthy (opt_deploy_bundle i) \<and> truthy (opt_deploy_charm i)
      then (Inl (SpecConfigException
                   ''Can not have both bundle and charm defined in deployment, must choose one or the other.''),
            w)
      else (Inr (), w))"

subsection \<open>The run\<close>

text \<open>
  Modelled from the spec: the driver that calls \<open>conflicts\<close> and \<open>process\<close> is the
  host framework, whose code is not among the sources. Sections 4.1 and 4.3 of the
  specification have the conflict check executed once, before any phase, and a failed
  check end the run. \<open>process\<close> itself never calls \<open>conflicts\<close>.
\<close>

definition run :: "environment \<Rightarrow> options \<Rightarrow> world \<Rightarrow> unit result" where
  "run env i = seq (Juju_conflicts i) (Juju_process env i)"

section \<open>The operations of the package \<open>ogc_plugins_juju/__init__.py\<close>\<close>

text \<open>
  The earlier form of the plugin reads its options through \<open>self.get_option\<close>, runs
  the deploy through \<open>sh\<close> and guards nothing but the bootstrap, where it catches
  exit status 1 only.
\<close>

record pkg_options =
  get_cloud :: string
  get_controller :: string
  get_model :: string
  get_bootstrap :: bool
  get_bootstrap_constraints :: "string option"
  get_bootstrap_debug :: bool
  get_bootstrap_disable_add_model :: bool
  get_deploy :: bool
  get_deploy_reuse :: bool
  get_deploy_bundle :: "string option"
  get_deploy_overlay :: "string option"
  get_deploy_bundle_channel :: "string option"
  get_deploy_charm_channel :: "string option"
  get_deploy_wait :: bool
  get_config_set :: "string list"

definition pkg_fmt_controller_model :: "pkg_options \<Rightarrow> string" where
  "pkg_fmt_controller_model i = get_controller i @ '':'' @ get_model i"

text \<open>A command run through \<open>sh\<close> with no handler around it.\<close>

definition sh_unguarded :: "environment \<Rightarrow> command \<Rightarrow> world \<Rightarrow> unit result" where
  "sh_unguarded env c w =
     (let (r, w1) = call env c w
      in case r of
           Ok \<Rightarrow> (Inr (), w1)
         | ErrorReturnCode n out err \<Rightarrow> (Inl (ShErrorReturnCode n out err), w1))"

definition pkg_charm_pull_args :: "environment \<Rightarrow> pkg_options \<Rightarrow> string list" where
  "pkg_charm_pull_args env i =
     [the (get_deploy_bundle i)] @
     (if truthy (get_deploy_bundle_channel i)
      then [''--channel'', the (get_deploy_bundle_channel i), charm_pull_path env]
      else [])"

definition pkg_deploy_cmd_args :: "environment \<Rightarrow> pkg_options \<Rightarrow> string list" where
  "pkg_deploy_cmd_args env i =
     [''-m'', pkg_fmt_controller_model i, charm_pull_path env @ ''/bundle.yaml''] @
     (if truthy (get_deploy_overlay i) then [''--overlay'', the (get_deploy_overlay i)] else []) @
     (if truthy (get_deploy_charm_channel i)
      then [''--channel'', the (get_deploy_charm_channel i)] else [])"

text \<open>\<open>bundle.startswith\<close> on a bundle that is \<open>None\<close> raises \<open>AttributeError\<close>.\<close>

definition Pkg_deploy :: "environment \<Rightarrow> pkg_options \<Rightarrow> world \<Rightarrow> unit result" where
  "Pkg_deploy env i =
     (case get_deploy_bundle i of
        None \<Rightarrow> (\<lambda>w. (Inl AttributeError, w))
      | Some bundle \<Rightarrow>
          if startswith bundle ''cs:''
          then seq (sh_unguarded env (ShCharm (''pull'' # pkg_charm_pull_args env i)))
                 (sh_unguarded env (ShJuju (''deploy'' # pkg_deploy_cmd_args env i)))
          else sh_unguarded env
                 (ShJuju [''deploy'', ''-m'', pkg_fmt_controller_model i, bundle]))"

definition pkg_bootstrap_cmd_args :: "pkg_options \<Rightarrow> string list" where
  "pkg_bootstrap_cmd_args i =
     [''bootstrap'', get_cloud i, get_controller i] @
     (if truthy (get_bootstrap_constraints i)
      then [''--bootstrap-constraints'', the (get_bootstrap_constraints i)] else []) @
     (if get_bootstrap_debug i then [''--debug''] else [])"

definition pkg_bootstrap_controller :: "environment \<Rightarrow> pkg_options \<Rightarrow> world \<Rightarrow> unit result" where
  "pkg_bootstrap_controller env i w =
     (let (r, w1) = call env (ShJuju (pkg_bootstrap_cmd_args i)) w
      in case r of
           Ok \<Rightarrow> (Inr (), w1)
         | ErrorReturnCode n out err \<Rightarrow>
             (if n = 1 then (Inl (SpecProcessException ''Unable to bootstrap:'' out), w1)
              else (Inl (ShErrorReturnCode n out err), w1)))"

definition Pkg_bootstrap :: "environment \<Rightarrow> pkg_options \<Rightarrow> world \<Rightarrow> unit result" where
  "Pkg_bootstrap env i =
     seq (pkg_bootstrap_controller env i)
       (when_do (\<not> get_bootstrap_disable_add_model i)
          (sh_unguarded env
             (ShJuju [''add-model'', ''-c'', get_controller i, get_model i, get_cloud i])))"

definition pkg_wait_command :: "pkg_options \<Rightarrow> command" where
  "pkg_wait_command i =
     ShJujuWait [''-e'', pkg_fmt_controller_model i, ''-w'', ''-r3'', ''-t14400''] None"

definition Pkg_wait :: "environment \<Rightarrow> pkg_options \<Rightarrow> world \<Rightarrow> unit result" where
  "Pkg_wait env i = when_do (get_deploy_wait i) (sh_unguarded env (pkg_wait_command i))"

definition Pkg_process :: "environment \<Rightarrow> pkg_options \<Rightarrow> world \<Rightarrow> unit result" where
  "Pkg_process env i =
     seq (when_do (\<not> get_deploy_reuse i \<and> get_bootstrap i) (Pkg_bootstrap env i))
       (when_do (get_deploy i)
          (seq (Pkg_deploy env i)
             (seq (Pkg_wait env i)
                (seq (config_loop env (pkg_fmt_controller_model i) (get_config_set i))
                   (Pkg_wait env i)))))"

section \<open>Observing a run\<close>

text \<open>
  Commands are told apart by the program they run and, for \<open>juju\<close>, by its first
  argument: \<open>bootstrap\<close>, \<open>add-model\<close>, \<open>config\<close>, \<open>destroy-controller\<close>.
\<close>

fun is_juju :: "string \<Rightarrow> command \<Rightarrow> bool" where
  "is_juju verb (ShJuju (a # args)) = (a = verb)"
| "is_juju verb c = False"

fun is_wait :: "command \<Rightarrow> bool" where
  "is_wait (ShJujuWait args t) = True"
| "is_wait c = False"

fun is_pull :: "command \<Rightarrow> bool" where
  "is_pull (ShCharm args) = True"
| "is_pull c = False"

fun is_deploy :: "command \<Rightarrow> bool" where
  "is_deploy (CmdOk line) = True"
| "is_deploy c = False"





text \<open>
  \<open>traced f Q\<close>: from every world, \<open>f\<close> only appends commands to those already issued,
  and \<open>Q\<close> holds of the history before, the result and the commands appended.
\<close>

definition traced :: "(world \<Rightarrow> unit result) \<Rightarrow> (command list \<Rightarrow> exn + unit \<Rightarrow> command list \<Rightarrow> bool) \<Rightarrow> bool" where
  "traced f Q = (\<forall>w. \<exists>xs. ops (snd (f w)) = ops w @ xs \<and> Q (ops w) (fst (f w)) xs)"

abbreviation only :: "(command \<Rightarrow> bool) \<Rightarrow> command list \<Rightarrow> exn + unit \<Rightarrow> command list \<Rightarrow> bool" where
  "only P \<equiv> (\<lambda>h r xs. list_all P xs)"

subsection \<open>A concrete run\<close>

text \<open>
  The intent of the scenario of the specification: bootstrap, then deploy a charmstore
  bundle from the \<open>edge\<close> channel and wait; an environment in which every command
  succeeds; a world in which nothing has happened yet.
\<close>

definition example_intent :: options where
  "example_intent =
     \<lparr>opt_cloud = ''aws'', opt_controller = ''c1'', opt_model = ''m1'', opt_force = False,
      opt_bootstrap = True, opt_bootstrap_constraints = None, opt_bootstrap_config = [],
      opt_bootstrap_model_default = [], opt_bootstrap_debug = False, opt_bootstrap_run = None,
      opt_bootstrap_disable_add_model = False, opt_bootstrap_replace_controller = False,
      opt_bootstrap_series = None, opt_deploy = True, opt_deploy_reuse = False,
      opt_deploy_bundle = Some ''cs:~org/bundle'', opt_deploy_charm = None,
      opt_deploy_overlay = None, opt_deploy_series = None, opt_deploy_channel = Some ''edge'',
      opt_deploy_constraints = None, opt_deploy_wait = True, opt_deploy_timeout = Some 10,
      opt_config = [], opt_teardown = False\<rparr>"

definition example_environment :: environment where
  "example_environment =
     \<lparr>runner = (\<lambda>h c. Ok), mkstemp = (\<lambda>n. ''/tmp/tmp'' @ replicate n CHR ''x''),
      gettempdir = ''/tmp'', uuid4 = ''123e4567-e89b-12d3-a456-426614174000''\<rparr>"

definition empty_world :: world where
  "empty_world = \<lparr>ops = [], files = [], executables = []\<rparr>"



text \<open>A charm deployment with overlay, channel, constraints, series and force all set.\<close>

definition charm_intent :: options where
  "charm_intent =
     example_intent\<lparr>opt_deploy_bundle := None, opt_deploy_charm := Some ''cs:etcd'',
       opt_deploy_overlay := Some ''applications: {}'', opt_deploy_constraints := Some ''mem=4G'',
       opt_deploy_series := Some ''focal'', opt_force := True\<rparr>"

text \<open>A local bundle with overlay, channel, constraints, series and force all set.\<close>

definition bundle_intent :: options where
  "bundle_intent =
     example_intent\<lparr>opt_deploy_bundle := Some ''./bundle.yaml'',
       opt_deploy_overlay := Some ''applications: {}'', opt_deploy_constraints := Some ''mem=4G'',
       opt_deploy_series := Some ''focal'', opt_force := True\<rparr>"

text \<open>The same scenario for the package, with \<open>deploy.wait\<close> unset.\<close>

definition example_pkg_intent :: pkg_options where
  "example_pkg_intent =
     \<lparr>get_cloud = ''aws'', get_controller = ''c1'', get_model = ''m1'', get_bootstrap = True,
      get_bootstrap_constraints = None, get_bootstrap_debug = False,
      get_bootstrap_disable_add_model = False, get_deploy = True, get_deploy_reuse = False,
      get_deploy_bundle = Some ''cs:~org/bundle'', get_deploy_overlay = None,
      get_deploy_bundle_channel = Some ''edge'', get_deploy_charm_channel = None,
      get_deploy_wait = False, get_config_set = []\<rparr>"

section \<open>Lemmas\<close>

lemmas fixture_defs = example_intent_def example_environment_def empty_world_def

lemmas model_defs =
  Juju_process_def Juju_run_def Juju_bootstrap_def bootstrap_controller_def
  Juju_teardown_def Juju_add_model_def Juju_deploy_def Juju_wait_def Juju_conflicts_def
  deploy_cmd_args_def deploy_target_def deploy_overlay_def deploy_flags_def deploy_command_def
  charm_pull_args_def charm_pull_path_def bootstrap_command_def bootstrap_cmd_args_def
  teardown_command_def add_model_command_def wait_command_def deploy_timeout_def
  config_command_def fmt_controller_model_def call_def seq_def skip_def when_do_def
  startswith_def single_quoted_def Let_def

lemma tracedI: "(\<And>w. \<exists>xs. ops (snd (f w)) = ops w @ xs \<and> Q (ops w) (fst (f w)) xs) \<Longrightarrow> traced f Q"
  by (simp add: traced_def)

lemma tracedD: "traced f Q \<Longrightarrow> \<exists>xs. ops (snd (f w)) = ops w @ xs \<and> Q (ops w) (fst (f w)) xs"
  by (simp add: traced_def)

lemma traced_weaken: "traced f Q \<Longrightarrow> (\<And>h r xs. Q h r xs \<Longrightarrow> Q' h r xs) \<Longrightarrow> traced f Q'"
  unfolding traced_def by blast

lemma traced_skip: "traced skip (\<lambda>h r xs. r = Inr () \<and> xs = [])"
  by (simp add: traced_def skip_def)

lemma traced_seq:
  assumes tf: "traced f Q1" and tg: "traced g Q2"
  shows "traced (seq f g)
           (\<lambda>h r xs. (\<exists>e. r = Inl e \<and> Q1 h (Inl e) xs) \<or>
                      (\<exists>xs1 xs2. xs = xs1 @ xs2 \<and> Q1 h (Inr ()) xs1 \<and> Q2 (h @ xs1) r xs2))"
proof (rule tracedI)
  fix w
  obtain xs1 where 1: "ops (snd (f w)) = ops w @ xs1" "Q1 (ops w) (fst (f w)) xs1"
    using tracedD [OF tf, of w] by blast
  obtain r w1 where fw: "f w = (r, w1)" by (cases "f w")
  show "\<exists>xs. ops (snd (seq f g w)) = ops w @ xs \<and>
          ((\<exists>e. fst (seq f g w) = Inl e \<and> Q1 (ops w) (Inl e) xs) \<or>
           (\<exists>xs1 xs2. xs = xs1 @ xs2 \<and> Q1 (ops w) (Inr ()) xs1 \<and> Q2 (ops w @ xs1) (fst (seq f g w)) xs2))"
  proof (cases r)
    case (Inl e)
    with fw 1 show ?thesis by (auto simp: seq_def)
  next
    case (Inr u)
    obtain xs2 where 2: "ops (snd (g w1)) = ops w1 @ xs2" "Q2 (ops w1) (fst (g w1)) xs2"
      using tracedD [OF tg, of w1] by blast
    have s: "seq f g w = g w1" using fw Inr by (simp add: seq_def)
    have "ops (snd (seq f g w)) = ops w @ (xs1 @ xs2)" using s 1 2 fw by simp
    moreover have "Q1 (ops w) (Inr ()) xs1" using 1 fw Inr by simp
    moreover have "Q2 (ops w @ xs1) (fst (seq f g w)) xs2" using s 1 2 fw by simp
    ultimately show ?thesis by blast
  qed
qed

lemma traced_when:
  "traced f Q \<Longrightarrow> traced (when_do b f) (\<lambda>h r xs. if b then Q h r xs else r = Inr () \<and> xs = [])"
  using traced_skip by (simp add: when_do_def)

lemma traced_call_cases:
  "traced (sh_unguarded env c) (\<lambda>h r xs. xs = [c] \<and> (r = Inr () \<longleftrightarrow> runner env h c = Ok))"
  by (rule tracedI) (simp add: sh_unguarded_def call_def split: outcome.splits)

lemma traced_teardown:
  "traced (Juju_teardown env i) (\<lambda>h r xs. xs = [teardown_command i] \<and> r = Inr ())"
  by (rule tracedI) (simp add: Juju_teardown_def call_def split: outcome.splits)

lemma traced_add_model:
  "traced (Juju_add_model env i)
     (\<lambda>h r xs. xs = [add_model_command i] \<and> (r = Inr () \<longleftrightarrow> runner env h (add_model_command i) = Ok))"
  by (rule tracedI) (simp add: Juju_add_model_def call_def split: outcome.splits)

lemma traced_bootstrap_controller:
  "traced (bootstrap_controller env i)
     (\<lambda>h r xs. xs = [bootstrap_command i] \<and> (r = Inr () \<longleftrightarrow> runner env h (bootstrap_command i) = Ok))"
  by (rule tracedI) (simp add: bootstrap_controller_def call_def split: outcome.splits)

lemma traced_wait:
  "traced (Juju_wait env i)
     (\<lambda>h r xs. if opt_deploy_wait i
                then xs = [wait_command i] \<and> (r = Inr () \<longleftrightarrow> runner env h (wait_command i) = Ok)
                else xs = [] \<and> r = Inr ())"
  by (rule tracedI) (simp add: Juju_wait_def call_def split: outcome.splits)

lemma traced_run:
  "traced (Juju_run env s) (\<lambda>h r xs. \<exists>p. xs = [ShEnv p])"
  by (rule tracedI) (simp add: Juju_run_def call_def Let_def split: outcome.splits)

lemma only_skip: "traced skip (only P)"
  by (rule traced_weaken [OF traced_skip]) simp

lemma only_seq: "traced f (only P) \<Longrightarrow> traced g (only P) \<Longrightarrow> traced (seq f g) (only P)"
  by (rule traced_weaken [OF traced_seq]) auto

lemma only_when:
  "(b \<Longrightarrow> traced f (only P)) \<Longrightarrow> traced (when_do b f) (only P)"
  by (cases b) (simp_all add: when_do_def only_skip)

lemma only_run: "(\<And>p. P (ShEnv p)) \<Longrightarrow> traced (Juju_run env s) (only P)"
  by (rule traced_weaken [OF traced_run]) auto

lemma only_teardown: "P (teardown_command i) \<Longrightarrow> traced (Juju_teardown env i) (only P)"
  by (rule traced_weaken [OF traced_teardown]) auto

lemma only_add_model: "P (add_model_command i) \<Longrightarrow> traced (Juju_add_model env i) (only P)"
  by (rule traced_weaken [OF traced_add_model]) auto

lemma only_bootstrap_controller:
  "P (bootstrap_command i) \<Longrightarrow> traced (bootstrap_controller env i) (only P)"
  by (rule traced_weaken [OF traced_bootstrap_controller]) auto

lemma only_wait: "P (wait_command i) \<Longrightarrow> traced (Juju_wait env i) (only P)"
  by (rule traced_weaken [OF traced_wait]) (auto split: if_splits)

lemma only_bootstrap:
  "P (teardown_command i) \<Longrightarrow> P (bootstrap_command i) \<Longrightarrow> P (add_model_command i) \<Longrightarrow>
   traced (Juju_bootstrap env i) (only P)"
  unfolding Juju_bootstrap_def
  by (intro only_seq only_when only_teardown only_bootstrap_controller only_add_model)

lemma deploy_target_ops:
  "\<exists>xs. ops (snd (deploy_target env i w)) = ops w @ xs \<and> list_all is_pull xs \<and>
        files (snd (deploy_target env i w)) = files w"
  by (simp add: deploy_target_def call_def split: outcome.splits option.splits)

lemma traced_deploy: "traced (Juju_deploy env i) (only (\<lambda>c. is_pull c \<or> is_deploy c))"
proof (rule tracedI)
  fix w
  obtain xs where xs: "ops (snd (deploy_target env i w)) = ops w @ xs" "list_all is_pull xs"
    using deploy_target_ops by blast
  obtain r w1 where t: "deploy_target env i w = (r, w1)" by (cases "deploy_target env i w")
  show "\<exists>xs. ops (snd (Juju_deploy env i w)) = ops w @ xs \<and> list_all (\<lambda>c. is_pull c \<or> is_deploy c) xs"
  proof (cases r)
    case (Inl e)
    then have "ops (snd (Juju_deploy env i w)) = ops w @ xs"
      using t xs by (simp add: Juju_deploy_def deploy_cmd_args_def)
    with xs show ?thesis by (auto simp: list_all_iff)
  next
    case (Inr args)
    then have "\<exists>c. is_deploy c \<and> ops (snd (Juju_deploy env i w)) = ops w @ xs @ [c]"
      using t xs
      by (simp add: Juju_deploy_def deploy_cmd_args_def deploy_overlay_def call_def Let_def
          deploy_command_def split: outcome.splits)
    with xs show ?thesis by (auto simp: list_all_iff)
  qed
qed

lemma only_deploy:
  "(\<And>c. is_pull c \<or> is_deploy c \<Longrightarrow> P c) \<Longrightarrow> traced (Juju_deploy env i) (only P)"
  by (rule traced_weaken [OF traced_deploy]) (auto simp: list_all_iff)

lemma seq_assoc: "seq (seq f g) h = seq f (seq g h)"
  by (rule ext) (simp add: seq_def split: prod.splits sum.splits)

lemma when_do_True: "when_do True f = f"
  by (simp add: when_do_def)

lemma when_do_False: "when_do False f = skip"
  by (simp add: when_do_def)

lemma seq_skip_left: "seq skip f = f"
  by (rule ext) (simp add: seq_def skip_def)

lemma config_loop_only:
  assumes P: "\<And>a s. P (config_command cm a s)"
  shows "\<exists>xs. ops (snd (config_loop env cm cs w)) = ops w @ xs \<and> list_all P xs"
proof (induction cs arbitrary: w)
  case Nil
  show ?case by simp
next
  case (Cons c cs)
  show ?case
  proof (cases "\<exists>a s. split_on CHR '' '' c = [a, s]")
    case False
    then have "config_loop env cm (c # cs) w = (Inl ValueError, w)"
      by (auto split: list.splits)
    then show ?thesis by simp
  next
    case True
    then obtain a s where sp: "split_on CHR '' '' c = [a, s]" by blast
    let ?w1 = "w\<lparr>ops := ops w @ [config_command cm a s]\<rparr>"
    show ?thesis
    proof (cases "runner env (ops w) (config_command cm a s)")
      case Ok
      then have e: "config_loop env cm (c # cs) w = config_loop env cm cs ?w1"
        using sp by (simp add: call_def)
      obtain xs where "ops (snd (config_loop env cm cs ?w1)) = ops ?w1 @ xs" "list_all P xs"
        using Cons.IH [of ?w1] by blast
      then have "ops (snd (config_loop env cm (c # cs) w)) = ops w @ (config_command cm a s # xs)
                 \<and> list_all P (config_command cm a s # xs)"
        using e P by simp
      then show ?thesis by blast
    next
      case (ErrorReturnCode n out err)
      then have "ops (snd (config_loop env cm (c # cs) w)) = ops w @ [config_command cm a s]"
        using sp by (simp add: call_def)
      then show ?thesis using P by (intro exI [of _ "[config_command cm a s]"]) simp
    qed
  qed
qed

lemma only_config_loop:
  "(\<And>a s. P (config_command cm a s)) \<Longrightarrow> traced (config_loop env cm cs) (only P)"
  by (rule tracedI) (rule config_loop_only)




lemma process_phases:
  "\<not> truthy (opt_bootstrap_run i) \<Longrightarrow> opt_deploy i \<Longrightarrow>
   Juju_process env i =
     seq (when_do (\<not> opt_deploy_reuse i \<and> opt_bootstrap i) (Juju_bootstrap env i))
       (seq (when_do (opt_bootstrap_disable_add_model i) (Juju_add_model env i))
          (seq (Juju_deploy env i)
             (seq (config_loop env (fmt_controller_model i) (opt_config i))
                (seq (Juju_wait env i)
                   (when_do (opt_teardown i) (Juju_teardown env i))))))"
  by (simp add: Juju_process_def when_do_True seq_assoc)

lemma command_simps [simp]:
  "\<not> is_juju ''config'' (teardown_command i)"
  "\<not> is_juju ''config'' (bootstrap_command i)"
  "\<not> is_juju ''config'' (add_model_command i)"
  "\<not> is_juju ''config'' (wait_command i)"
  "\<not> is_juju ''bootstrap'' (teardown_command i)"
  "\<not> is_juju ''bootstrap'' (add_model_command i)"
  "\<not> is_juju ''bootstrap'' (wait_command i)"
  "\<not> is_juju ''bootstrap'' (config_command cm a s)"
  "\<not> is_juju ''add-model'' (teardown_command i)"
  "\<not> is_juju ''add-model'' (bootstrap_command i)"
  "\<not> is_juju ''add-model'' (wait_command i)"
  "\<not> is_juju ''add-model'' (config_command cm a s)"
  "\<not> is_juju ''destroy-controller'' (bootstrap_command i)"
  "\<not> is_juju ''destroy-controller'' (add_model_command i)"
  "\<not> is_juju ''destroy-controller'' (wait_command i)"
  "\<not> is_juju ''destroy-controller'' (config_command cm a s)"
  "\<not> is_wait (teardown_command i)"
  "\<not> is_wait (bootstrap_command i)"
  "\<not> is_wait (add_model_command i)"
  "\<not> is_wait (config_command cm a s)"
  "\<not> is_deploy (teardown_command i)"
  "\<not> is_deploy (bootstrap_command i)"
  "\<not> is_deploy (add_model_command i)"
  "\<not> is_pull (teardown_command i)"
  "\<not> is_pull (bootstrap_command i)"
  "\<not> is_pull (add_model_command i)"
  "is_juju ''config'' (config_command cm a s)"
  by (simp_all add: teardown_command_def bootstrap_command_def bootstrap_cmd_args_def
      add_model_command_def wait_command_def config_command_def)

lemma pull_deploy_simps [simp]:
  "is_pull c \<or> is_deploy c \<Longrightarrow> \<not> is_juju v c"
  "is_pull c \<or> is_deploy c \<Longrightarrow> \<not> is_wait c"
  by (cases c; simp)+


lemma bootstrap_flag_commands:
  "fmt_controller_model (i\<lparr>opt_bootstrap := b\<rparr>) = fmt_controller_model i"
  "teardown_command (i\<lparr>opt_bootstrap := b\<rparr>) = teardown_command i"
  "add_model_command (i\<lparr>opt_bootstrap := b\<rparr>) = add_model_command i"
  "wait_command (i\<lparr>opt_bootstrap := b\<rparr>) = wait_command i"
  "deploy_flags (i\<lparr>opt_bootstrap := b\<rparr>) = deploy_flags i"
  "charm_pull_args env (i\<lparr>opt_bootstrap := b\<rparr>) = charm_pull_args env i"
  by (simp_all add: fmt_controller_model_def teardown_command_def add_model_command_def
      wait_command_def deploy_timeout_def deploy_flags_def charm_pull_args_def)

lemma bootstrap_flag_steps:
  "Juju_teardown env (i\<lparr>opt_bootstrap := b\<rparr>) = Juju_teardown env i"
  "Juju_add_model env (i\<lparr>opt_bootstrap := b\<rparr>) = Juju_add_model env i"
  "Juju_wait env (i\<lparr>opt_bootstrap := b\<rparr>) = Juju_wait env i"
  "deploy_target env (i\<lparr>opt_bootstrap := b\<rparr>) = deploy_target env i"
  "deploy_overlay env (i\<lparr>opt_bootstrap := b\<rparr>) = deploy_overlay env i"
  by (intro ext, simp add: Juju_teardown_def Juju_add_model_def Juju_wait_def deploy_target_def
      deploy_overlay_def bootstrap_flag_commands
      cong: prod.case_cong sum.case_cong outcome.case_cong option.case_cong if_cong)+

lemma bootstrap_flag_deploy:
  "Juju_deploy env (i\<lparr>opt_bootstrap := b\<rparr>) = Juju_deploy env i"
  by (intro ext)
     (simp add: Juju_deploy_def deploy_cmd_args_def bootstrap_flag_steps bootstrap_flag_commands
        cong: prod.case_cong sum.case_cong)

lemma deploy_target_shape:
  assumes "deploy_target env i w = (Inr targs, w1)"
  shows "(\<exists>target. targs = [''-m'', fmt_controller_model i, target]) \<and> files w1 = files w"
proof (cases "truthy (opt_deploy_charm i)")
  case True
  with assms show ?thesis by (auto simp: deploy_target_def)
next
  case False
  show ?thesis
  proof (cases "truthy (opt_deploy_bundle i) \<and> startswith (the (opt_deploy_bundle i)) ''cs:''")
    case True
    with False assms show ?thesis
      by (cases "runner env (ops w) (ShCharm (''pull'' # charm_pull_args env i))")
         (auto simp: deploy_target_def call_def)
  next
    case nocs: False
    with False assms show ?thesis
      by (cases "opt_deploy_bundle i") (auto simp: deploy_target_def)
  qed
qed

lemmas pkg_defs =
  Pkg_process_def Pkg_bootstrap_def pkg_bootstrap_controller_def Pkg_deploy_def Pkg_wait_def
  pkg_wait_command_def pkg_bootstrap_cmd_args_def pkg_deploy_cmd_args_def
  pkg_charm_pull_args_def pkg_fmt_controller_model_def sh_unguarded_def example_pkg_intent_def

lemma only_sh_unguarded: "P c \<Longrightarrow> traced (sh_unguarded env c) (only P)"
  by (rule traced_weaken [OF traced_call_cases]) auto

lemma only_raise: "traced (\<lambda>w. (Inl e, w)) (only P)"
  by (rule tracedI) simp

lemma only_pkg_bootstrap_controller:
  "P (ShJuju (pkg_bootstrap_cmd_args i)) \<Longrightarrow> traced (pkg_bootstrap_controller env i) (only P)"
  by (rule tracedI) (simp add: pkg_bootstrap_controller_def call_def split: outcome.splits)

lemma only_pkg_bootstrap:
  "(\<And>args. P (ShJuju args)) \<Longrightarrow> traced (Pkg_bootstrap env i) (only P)"
  unfolding Pkg_bootstrap_def
  by (intro only_seq only_when only_pkg_bootstrap_controller only_sh_unguarded)

lemma only_pkg_deploy:
  "(\<And>args. P (ShJuju args)) \<Longrightarrow> (\<And>args. P (ShCharm args)) \<Longrightarrow>
   traced (Pkg_deploy env i) (only P)"
  unfolding Pkg_deploy_def
  by (cases "get_deploy_bundle i")
     (simp_all add: only_raise only_seq only_sh_unguarded)

lemma traced_pkg_wait:
  "traced (Pkg_wait env i)
     (\<lambda>h r xs. xs = (if get_deploy_wait i then [pkg_wait_command i] else []))"
  unfolding Pkg_wait_def
  by (rule traced_weaken [OF traced_when [OF traced_call_cases]]) (auto split: if_splits)

lemma traced_teardown_phase:
  "traced (when_do (opt_teardown i) (Juju_teardown env i))
     (only (is_juju ''destroy-controller''))"
  by (intro only_when only_teardown) (simp add: teardown_command_def)

lemma process_alone_does_not_check:
  "Juju_process example_environment (example_intent\<lparr>opt_deploy_charm := Some ''cs:etcd''\<rparr>)
     empty_world =
     (Inr (),
      \<lparr>ops =
         [ShJuju [''bootstrap'', ''aws'', ''c1''],
          ShJuju [''add-model'', ''-c'', ''c1'', ''m1'', ''aws''],
          CmdOk ''juju deploy -m c1:m1 cs:etcd --channel edge'',
          ShJujuWait [''-e'', ''c1:m1'', ''-w'', ''-r3''] (Some 10)],
       files = [], executables = []\<rparr>)"
  by (simp add: fixture_defs model_defs)

lemma run_without_conflict:
  "\<not> (truthy (opt_deploy_bundle i) \<and> truthy (opt_deploy_charm i)) \<Longrightarrow>
   run env i = Juju_process env i"
  by (rule ext) (auto simp add: run_def seq_def Juju_conflicts_def)

section \<open>The claims\<close>

text \<open>
  C1. Whenever both a bundle and a charm are set (both options are true for Python),
  \<open>conflicts\<close> raises \<open>SpecConfigException\<close> and leaves the world as it found it, and
  a run, which performs the check before \<open>process\<close>, ends with that exception in the
  world it started from: no command has been issued and no file written.
\<close>

theorem conflicting_targets_end_the_run:
  assumes "truthy (opt_deploy_bundle i)" and "truthy (opt_deploy_charm i)"
  shows "Juju_conflicts i w =
           (Inl (SpecConfigException
              ''Can not have both bundle and charm defined in deployment, must choose one or the other.''), w) \<and>
         run env i w =
           (Inl (SpecConfigException
              ''Can not have both bundle and charm defined in deployment, must choose one or the other.''), w)"
  using assms by (simp add: run_def seq_def Juju_conflicts_def)

theorem conflicting_targets_end_the_run_witness:
  "truthy (opt_deploy_bundle (example_intent\<lparr>opt_deploy_charm := Some ''cs:etcd''\<rparr>)) \<and>
   truthy (opt_deploy_charm (example_intent\<lparr>opt_deploy_charm := Some ''cs:etcd''\<rparr>)) \<and>
   run example_environment (example_intent\<lparr>opt_deploy_charm := Some ''cs:etcd''\<rparr>) empty_world =
     (Inl (SpecConfigException
        ''Can not have both bundle and charm defined in deployment, must choose one or the other.''),
      empty_world) \<and>
   ops (snd (run example_environment (example_intent\<lparr>opt_deploy_charm := Some ''cs:etcd''\<rparr>)
               empty_world)) = []"
  using conflicting_targets_end_the_run [of "example_intent\<lparr>opt_deploy_charm := Some ''cs:etcd''\<rparr>" empty_world
      example_environment]
  by (simp add: fixture_defs)

text \<open>
  C2. With \<open>bootstrap.run\<close> set, \<open>process\<close> writes the script to a temporary file and
  issues exactly one command, the script; whatever the other options are and whether or
  not the script succeeds, nothing else is issued.
\<close>

theorem run_override_is_the_only_command:
  assumes "truthy (opt_bootstrap_run i)"
  shows "ops (snd (Juju_process env i w)) = ops w @ [ShEnv (mkstemp env (length (files w)))] \<and>
         files (snd (Juju_process env i w)) =
           files w @ [(mkstemp env (length (files w)), the (opt_bootstrap_run i))]"
  using assms by (simp add: Juju_process_def Juju_run_def call_def Let_def split: outcome.splits)

theorem run_override_is_the_only_command_witness:
  "truthy (opt_bootstrap_run (example_intent\<lparr>opt_bootstrap_run := Some ''echo hi'', opt_teardown := True\<rparr>)) \<and>
   ops (snd (Juju_process example_environment
               (example_intent\<lparr>opt_bootstrap_run := Some ''echo hi'', opt_teardown := True\<rparr>)
               empty_world)) = [ShEnv ''/tmp/tmp''] \<and>
   files (snd (Juju_process example_environment
               (example_intent\<lparr>opt_bootstrap_run := Some ''echo hi'', opt_teardown := True\<rparr>)
               empty_world)) = [(''/tmp/tmp'', ''echo hi'')]"
  using run_override_is_the_only_command [of "example_intent\<lparr>opt_bootstrap_run := Some ''echo hi'', opt_teardown := True\<rparr>"
      example_environment empty_world]
  by (simp add: fixture_defs)

text \<open>
  C3. For the charmstore bundle \<open>cs:~org/bundle\<close> with no channel set, \<open>_deploy\<close>
  passes the bundle reference alone to the pull: line 289 appends the local path inside
  \<open>if channel:\<close>. The deploy that follows still names the manifest under that path,
  which the pull never received.
\<close>

theorem charm_pull_without_channel_omits_path:
  "truthy (opt_deploy_bundle (example_intent\<lparr>opt_deploy_channel := None\<rparr>)) \<and>
   startswith (the (opt_deploy_bundle (example_intent\<lparr>opt_deploy_channel := None\<rparr>))) ''cs:'' \<and>
   ops (snd (Juju_deploy example_environment (example_intent\<lparr>opt_deploy_channel := None\<rparr>)
               empty_world)) =
     [ShCharm [''pull'', ''cs:~org/bundle''],
      CmdOk ''juju deploy -m c1:m1 /tmp/426614174000/bundle.yaml'']"
  by (simp add: fixture_defs model_defs)

text \<open>
  C4. For every run with \<open>deploy\<close> set and no \<open>bootstrap.run\<close>, in
  \<open>ogc_plugins_juju.py\<close>: the commands up to the end of the configuration contain no
  wait; either one of those steps raised and the run ends there, or they are followed by
  one wait command when \<open>deploy.wait\<close> is true and by none when it is false, and after
  that by nothing but the teardown. In the package \<open>__init__.py\<close>, for every run with
  \<open>deploy\<close> set: \<open>_wait\<close> is placed after the deploy and again after the
  configuration, with only \<open>config\<close> commands in between, and each of the two issues
  its wait command when \<open>deploy.wait\<close> is true and nothing when it is false.
\<close>

theorem wait_follows_configuration_and_obeys_flag:
  assumes run: "\<not> truthy (opt_bootstrap_run i)" and dep: "opt_deploy i"
    and pdep: "get_deploy j"
  shows "(\<exists>before. list_all (\<lambda>c. \<not> is_wait c) before \<and>
          (((\<exists>e. fst (Juju_process env i w) = Inl e) \<and>
            ops (snd (Juju_process env i w)) = ops w @ before)
           \<or> (\<exists>after. list_all (is_juju ''destroy-controller'') after \<and>
                 ops (snd (Juju_process env i w)) =
                   ops w @ before @ (if opt_deploy_wait i then [wait_command i] else []) @ after)))
       \<and> (\<exists>before between.
            list_all (\<lambda>c. \<not> is_wait c) before \<and> list_all (is_juju ''config'') between \<and>
            (((\<exists>e. fst (Pkg_process env j w) = Inl e) \<and>
              (ops (snd (Pkg_process env j w)) = ops w @ before \<or>
               ops (snd (Pkg_process env j w)) =
                 ops w @ before @ (if get_deploy_wait j then [pkg_wait_command j] else []) @ between))
             \<or> ops (snd (Pkg_process env j w)) =
                 ops w @ before @ (if get_deploy_wait j then [pkg_wait_command j] else []) @
                 between @ (if get_deploy_wait j then [pkg_wait_command j] else [])))"
proof
  let ?P = "seq (when_do (\<not> opt_deploy_reuse i \<and> opt_bootstrap i) (Juju_bootstrap env i))
              (seq (when_do (opt_bootstrap_disable_add_model i) (Juju_add_model env i))
                 (seq (Juju_deploy env i)
                    (config_loop env (fmt_controller_model i) (opt_config i))))"
  let ?W = "Juju_wait env i"
  let ?T = "when_do (opt_teardown i) (Juju_teardown env i)"
  let ?N = "\<lambda>c. \<not> is_wait c"
  let ?ws = "if opt_deploy_wait i then [wait_command i] else []"
  let ?res = "Juju_process env i w"
  define QW where "QW = (\<lambda>(h::command list) (r::exn + unit) xs. xs = ?ws)"
  have grp: "Juju_process env i = seq ?P (seq ?W ?T)"
    using run dep by (simp add: process_phases seq_assoc)
  have P: "traced ?P (only ?N)"
    by (intro only_seq only_when only_bootstrap only_add_model only_deploy only_config_loop)
       simp_all
  have W: "traced ?W QW"
    unfolding QW_def by (rule traced_weaken [OF traced_wait]) (auto split: if_splits)
  have T: "traced ?T (only (is_juju ''destroy-controller''))"
    by (rule traced_teardown_phase)
  from tracedD [OF traced_seq [OF P traced_seq [OF W T]], where w = w]
  obtain xs where xs: "ops (snd ?res) = ops w @ xs"
    and cases: "(\<exists>e. fst ?res = Inl e \<and> list_all ?N xs) \<or>
      (\<exists>xs1 xs2. xs = xs1 @ xs2 \<and> list_all ?N xs1 \<and>
         ((\<exists>e. fst ?res = Inl e \<and> QW (ops w @ xs1) (Inl e) xs2) \<or>
          (\<exists>ys1 ys2. xs2 = ys1 @ ys2 \<and> QW (ops w @ xs1) (Inr ()) ys1 \<and>
             list_all (is_juju ''destroy-controller'') ys2)))"
    unfolding grp by blast
  from cases
  show "\<exists>before. list_all ?N before \<and>
          (((\<exists>e. fst ?res = Inl e) \<and> ops (snd ?res) = ops w @ before)
           \<or> (\<exists>after. list_all (is_juju ''destroy-controller'') after \<and>
                 ops (snd ?res) = ops w @ before @ ?ws @ after))"
  proof (elim disjE exE conjE)
    fix e assume "fst ?res = Inl e" "list_all ?N xs"
    with xs show ?thesis by blast
  next
    fix xs1 xs2 e
    assume a: "xs = xs1 @ xs2" "list_all ?N xs1" "QW (ops w @ xs1) (Inl e) xs2"
    have "list_all (is_juju ''destroy-controller'') [] \<and>
          ops (snd ?res) = ops w @ xs1 @ ?ws @ []"
      using a xs by (simp add: QW_def)
    with a(2) show ?thesis by blast
  next
    fix xs1 xs2 ys1 ys2
    assume a: "xs = xs1 @ xs2" "list_all ?N xs1" "xs2 = ys1 @ ys2"
      "QW (ops w @ xs1) (Inr ()) ys1" "list_all (is_juju ''destroy-controller'') ys2"
    have "list_all (is_juju ''destroy-controller'') ys2 \<and>
          ops (snd ?res) = ops w @ xs1 @ ?ws @ ys2"
      using a xs by (simp add: QW_def)
    with a(2) show ?thesis by blast
  qed
next
  let ?P = "seq (when_do (\<not> get_deploy_reuse j \<and> get_bootstrap j) (Pkg_bootstrap env j))
              (Pkg_deploy env j)"
  let ?W = "Pkg_wait env j"
  let ?C = "config_loop env (pkg_fmt_controller_model j) (get_config_set j)"
  let ?N = "\<lambda>c. \<not> is_wait c"
  let ?ws = "if get_deploy_wait j then [pkg_wait_command j] else []"
  let ?res = "Pkg_process env j w"
  define QW where "QW = (\<lambda>(h::command list) (r::exn + unit) xs. xs = ?ws)"
  have grp: "Pkg_process env j = seq ?P (seq ?W (seq ?C ?W))"
    using pdep by (simp add: Pkg_process_def when_do_True seq_assoc)
  have P: "traced ?P (only ?N)"
    by (intro only_seq only_when only_pkg_bootstrap only_pkg_deploy) simp_all
  have W: "traced ?W QW"
    unfolding QW_def by (rule traced_pkg_wait)
  have C: "traced ?C (only (is_juju ''config''))"
    by (intro only_config_loop) simp
  from tracedD [OF traced_seq [OF P traced_seq [OF W traced_seq [OF C W]]], where w = w]
  obtain xs where xs: "ops (snd ?res) = ops w @ xs"
    and cases: "(\<exists>e. fst ?res = Inl e \<and> list_all ?N xs) \<or>
      (\<exists>xs1 xs2. xs = xs1 @ xs2 \<and> list_all ?N xs1 \<and>
         ((\<exists>e. fst ?res = Inl e \<and> QW (ops w @ xs1) (Inl e) xs2) \<or>
          (\<exists>ys1 ys2. xs2 = ys1 @ ys2 \<and> QW (ops w @ xs1) (Inr ()) ys1 \<and>
             ((\<exists>e. fst ?res = Inl e \<and> list_all (is_juju ''config'') ys2) \<or>
              (\<exists>zs1 zs2. ys2 = zs1 @ zs2 \<and> list_all (is_juju ''config'') zs1 \<and>
                 QW (((ops w @ xs1) @ ys1) @ zs1) (fst ?res) zs2)))))"
    unfolding grp by blast
  from cases
  show "\<exists>before between.
            list_all ?N before \<and> list_all (is_juju ''config'') between \<and>
            (((\<exists>e. fst ?res = Inl e) \<and>
              (ops (snd ?res) = ops w @ before \<or>
               ops (snd ?res) = ops w @ before @ ?ws @ between))
             \<or> ops (snd ?res) = ops w @ before @ ?ws @ between @ ?ws)"
  proof (elim disjE exE conjE)
    fix e assume a: "fst ?res = Inl e" "list_all ?N xs"
    have "list_all ?N xs \<and> list_all (is_juju ''config'') [] \<and>
          (\<exists>e. fst ?res = Inl e) \<and> ops (snd ?res) = ops w @ xs"
      using a xs by simp
    then show ?thesis by blast
  next
    fix xs1 xs2 e
    assume a: "xs = xs1 @ xs2" "list_all ?N xs1" "fst ?res = Inl e" "QW (ops w @ xs1) (Inl e) xs2"
    have "list_all ?N xs1 \<and> list_all (is_juju ''config'') [] \<and>
          (\<exists>e. fst ?res = Inl e) \<and> ops (snd ?res) = ops w @ xs1 @ ?ws @ []"
      using a xs by (simp add: QW_def)
    then show ?thesis by blast
  next
    fix xs1 xs2 ys1 ys2 e
    assume a: "xs = xs1 @ xs2" "list_all ?N xs1" "xs2 = ys1 @ ys2"
      "QW (ops w @ xs1) (Inr ()) ys1" "fst ?res = Inl e" "list_all (is_juju ''config'') ys2"
    have "list_all ?N xs1 \<and> list_all (is_juju ''config'') ys2 \<and>
          (\<exists>e. fst ?res = Inl e) \<and> ops (snd ?res) = ops w @ xs1 @ ?ws @ ys2"
      using a xs by (simp add: QW_def)
    then show ?thesis by blast
  next
    fix xs1 xs2 ys1 ys2 zs1 zs2
    assume a: "xs = xs1 @ xs2" "list_all ?N xs1" "xs2 = ys1 @ ys2"
      "QW (ops w @ xs1) (Inr ()) ys1" "ys2 = zs1 @ zs2" "list_all (is_juju ''config'') zs1"
      "QW (((ops w @ xs1) @ ys1) @ zs1) (fst ?res) zs2"
    have "list_all ?N xs1 \<and> list_all (is_juju ''config'') zs1 \<and>
          ops (snd ?res) = ops w @ xs1 @ ?ws @ zs1 @ ?ws"
      using a xs by (simp add: QW_def)
    then show ?thesis by blast
  qed
qed

theorem wait_follows_configuration_and_obeys_flag_witness:
  "\<not> truthy (opt_bootstrap_run example_intent) \<and> opt_deploy example_intent \<and>
   opt_deploy_wait example_intent \<and>
   get_deploy (example_pkg_intent\<lparr>get_deploy_wait := True\<rparr>) \<and>
   ops (snd (Juju_process example_environment example_intent empty_world)) =
     [ShJuju [''bootstrap'', ''aws'', ''c1''],
      ShJuju [''add-model'', ''-c'', ''c1'', ''m1'', ''aws''],
      ShCharm [''pull'', ''cs:~org/bundle'', ''--channel'', ''edge'', ''/tmp/426614174000''],
      CmdOk ''juju deploy -m c1:m1 /tmp/426614174000/bundle.yaml --channel edge'',
      ShJujuWait [''-e'', ''c1:m1'', ''-w'', ''-r3''] (Some 10)] \<and>
   ops (snd (Pkg_process example_environment (example_pkg_intent\<lparr>get_deploy_wait := True\<rparr>)
               empty_world)) =
     [ShJuju [''bootstrap'', ''aws'', ''c1''],
      ShJuju [''add-model'', ''-c'', ''c1'', ''m1'', ''aws''],
      ShCharm [''pull'', ''cs:~org/bundle'', ''--channel'', ''edge'', ''/tmp/426614174000''],
      ShJuju [''deploy'', ''-m'', ''c1:m1'', ''/tmp/426614174000/bundle.yaml''],
      ShJujuWait [''-e'', ''c1:m1'', ''-w'', ''-r3'', ''-t14400''] None,
      ShJujuWait [''-e'', ''c1:m1'', ''-w'', ''-r3'', ''-t14400''] None]"
  using wait_follows_configuration_and_obeys_flag [of example_intent "example_pkg_intent\<lparr>get_deploy_wait := True\<rparr>"
      example_environment empty_world]
  by (simp add: fixture_defs model_defs pkg_defs)

text \<open>
  The specification's sentence that a deploying run waits a second time whatever the flag
  says does not hold: with \<open>deploy.wait\<close> false and every command succeeding, neither
  version of \<open>process\<close> issues a wait command, and with the flag true
  \<open>ogc_plugins_juju.py\<close> issues one, not two.
\<close>

theorem wait_flag_false_issues_no_wait:
  "opt_deploy (example_intent\<lparr>opt_deploy_wait := False\<rparr>) \<and>
   Juju_process example_environment (example_intent\<lparr>opt_deploy_wait := False\<rparr>) empty_world =
     (Inr (),
      \<lparr>ops =
         [ShJuju [''bootstrap'', ''aws'', ''c1''],
          ShJuju [''add-model'', ''-c'', ''c1'', ''m1'', ''aws''],
          ShCharm [''pull'', ''cs:~org/bundle'', ''--channel'', ''edge'', ''/tmp/426614174000''],
          CmdOk ''juju deploy -m c1:m1 /tmp/426614174000/bundle.yaml --channel edge''],
       files = [], executables = []\<rparr>) \<and>
   filter is_wait (ops (snd (Juju_process example_environment
      (example_intent\<lparr>opt_deploy_wait := False\<rparr>) empty_world))) = [] \<and>
   filter is_wait (ops (snd (Juju_process example_environment example_intent empty_world))) =
     [ShJujuWait [''-e'', ''c1:m1'', ''-w'', ''-r3''] (Some 10)] \<and>
   get_deploy example_pkg_intent \<and>
   Pkg_process example_environment example_pkg_intent empty_world =
     (Inr (),
      \<lparr>ops =
         [ShJuju [''bootstrap'', ''aws'', ''c1''],
          ShJuju [''add-model'', ''-c'', ''c1'', ''m1'', ''aws''],
          ShCharm [''pull'', ''cs:~org/bundle'', ''--channel'', ''edge'', ''/tmp/426614174000''],
          ShJuju [''deploy'', ''-m'', ''c1:m1'', ''/tmp/426614174000/bundle.yaml'']],
       files = [], executables = []\<rparr>)"
  by (simp add: fixture_defs model_defs pkg_defs)





text \<open>
  C7. With a bundle set, and overlay, channel, constraints, series and force all set, the
  argument list is the three leading arguments \<open>-m\<close>, controller:model and the target,
  then \<open>--overlay\<close> with the path of the file the overlay was written to, \<open>--channel\<close>,
  \<open>--constraints\<close> with the value in single quotes, \<open>--series\<close> and \<open>--force\<close>, in
  this order, and the deploy command is issued with exactly this list.
\<close>

theorem deploy_flags_order_for_bundle:
  assumes b: "truthy (opt_deploy_bundle i)" and o: "truthy (opt_deploy_overlay i)"
    and c: "truthy (opt_deploy_channel i)" and k: "truthy (opt_deploy_constraints i)"
    and s: "truthy (opt_deploy_series i)" and f: "opt_force i"
    and r: "deploy_cmd_args env i w = (Inr args, w')"
  shows "(\<exists>target. args =
           [''-m'', fmt_controller_model i, target,
            ''--overlay'', mkstemp env (length (files w)),
            ''--channel'', the (opt_deploy_channel i),
            ''--constraints'', single_quoted (the (opt_deploy_constraints i)),
            ''--series'', the (opt_deploy_series i),
            ''--force'']) \<and>
         files w' = files w @ [(mkstemp env (length (files w)), the (opt_deploy_overlay i))] \<and>
         ops (snd (Juju_deploy env i w)) = ops w' @ [deploy_command args]"
proof -
  obtain tr w1 where t: "deploy_target env i w = (tr, w1)" by (cases "deploy_target env i w")
  from r t obtain targs where tr: "tr = Inr targs"
    by (cases tr) (auto simp: deploy_cmd_args_def)
  from deploy_target_shape [OF t [unfolded tr]]
  obtain target where tg: "targs = [''-m'', fmt_controller_model i, target]"
    and fw: "files w1 = files w" by blast
  have ov: "deploy_overlay env i targs w1 =
      (targs @ [''--overlay'', mkstemp env (length (files w))],
       w1\<lparr>files := files w @ [(mkstemp env (length (files w)), the (opt_deploy_overlay i))]\<rparr>)"
    using b o fw by (simp add: deploy_overlay_def Let_def)
  have fl: "deploy_flags i =
      [''--channel'', the (opt_deploy_channel i),
       ''--constraints'', single_quoted (the (opt_deploy_constraints i)),
       ''--series'', the (opt_deploy_series i), ''--force'']"
    using c k s f by (simp add: deploy_flags_def)
  have "deploy_cmd_args env i w =
      (Inr (targs @ [''--overlay'', mkstemp env (length (files w))] @ deploy_flags i),
       w1\<lparr>files := files w @ [(mkstemp env (length (files w)), the (opt_deploy_overlay i))]\<rparr>)"
    using t tr ov by (simp add: deploy_cmd_args_def)
  with r have args: "args = targs @ [''--overlay'', mkstemp env (length (files w))] @ deploy_flags i"
    and w': "w' = w1\<lparr>files := files w @ [(mkstemp env (length (files w)), the (opt_deploy_overlay i))]\<rparr>"
    by simp_all
  have 1: "\<exists>target. args =
           [''-m'', fmt_controller_model i, target,
            ''--overlay'', mkstemp env (length (files w)),
            ''--channel'', the (opt_deploy_channel i),
            ''--constraints'', single_quoted (the (opt_deploy_constraints i)),
            ''--series'', the (opt_deploy_series i),
            ''--force'']"
    using args tg fl by simp
  have 2: "files w' = files w @ [(mkstemp env (length (files w)), the (opt_deploy_overlay i))]"
    using w' by simp
  have 3: "ops (snd (Juju_deploy env i w)) = ops w' @ [deploy_command args]"
    using r by (cases "runner env (ops w') (deploy_command args)")
      (simp_all add: Juju_deploy_def call_def)
  from 1 2 3 show ?thesis by blast
qed

theorem deploy_flags_order_for_bundle_witness:
  "truthy (opt_deploy_bundle bundle_intent) \<and> truthy (opt_deploy_overlay bundle_intent) \<and>
   truthy (opt_deploy_channel bundle_intent) \<and> truthy (opt_deploy_constraints bundle_intent) \<and>
   truthy (opt_deploy_series bundle_intent) \<and> opt_force bundle_intent \<and>
   deploy_cmd_args example_environment bundle_intent empty_world =
     (Inr [''-m'', ''c1:m1'', ''./bundle.yaml'', ''--overlay'', ''/tmp/tmp'', ''--channel'', ''edge'',
           ''--constraints'', single_quoted ''mem=4G'', ''--series'', ''focal'', ''--force''],
      empty_world\<lparr>files := [(''/tmp/tmp'', ''applications: {}'')]\<rparr>) \<and>
   ops (snd (Juju_deploy example_environment bundle_intent empty_world)) =
     [deploy_command [''-m'', ''c1:m1'', ''./bundle.yaml'', ''--overlay'', ''/tmp/tmp'',
        ''--channel'', ''edge'', ''--constraints'', single_quoted ''mem=4G'', ''--series'', ''focal'',
        ''--force'']]"
  using deploy_flags_order_for_bundle [of bundle_intent example_environment empty_world
      "[''-m'', ''c1:m1'', ''./bundle.yaml'', ''--overlay'', ''/tmp/tmp'', ''--channel'', ''edge'',
           ''--constraints'', single_quoted ''mem=4G'', ''--series'', ''focal'', ''--force'']"
      "empty_world\<lparr>files := [(''/tmp/tmp'', ''applications: {}'')]\<rparr>"]
  by (simp add: bundle_intent_def fixture_defs model_defs)

text \<open>
  For a charm with no bundle the overlay is dropped: with all five options set the argument
  list has no \<open>--overlay\<close> flag, and no overlay file is written.
\<close>

theorem charm_deploy_has_no_overlay_flag:
  "truthy (opt_deploy_overlay charm_intent) \<and> truthy (opt_deploy_channel charm_intent) \<and>
   truthy (opt_deploy_constraints charm_intent) \<and> truthy (opt_deploy_series charm_intent) \<and>
   opt_force charm_intent \<and>
   deploy_cmd_args example_environment charm_intent empty_world =
     (Inr [''-m'', ''c1:m1'', ''cs:etcd'', ''--channel'', ''edge'',
           ''--constraints'', single_quoted ''mem=4G'', ''--series'', ''focal'', ''--force''],
      empty_world) \<and>
   ''--overlay'' \<notin> set [''-m'', ''c1:m1'', ''cs:etcd'', ''--channel'', ''edge'',
           ''--constraints'', single_quoted ''mem=4G'', ''--series'', ''focal'', ''--force'']"
  by (simp add: charm_intent_def fixture_defs model_defs)




text \<open>
  C9. With \<open>deploy.reuse\<close> set the run is the run of the same options with \<open>bootstrap\<close>
  unset. It issues no \<open>bootstrap\<close> command; it issues no \<open>destroy-controller\<close> unless
  \<open>teardown\<close> is set, and no \<open>add-model\<close> unless the deploy phase adds the model.
\<close>

theorem reuse_skips_bootstrap:
  assumes reuse: "opt_deploy_reuse i"
  shows "Juju_process env i = Juju_process env (i\<lparr>opt_bootstrap := False\<rparr>) \<and>
    (\<exists>xs. ops (snd (Juju_process env i w)) = ops w @ xs \<and>
       list_all (\<lambda>c. \<not> is_juju ''bootstrap'' c) xs \<and>
       (\<not> opt_teardown i \<longrightarrow> list_all (\<lambda>c. \<not> is_juju ''destroy-controller'' c) xs) \<and>
       (\<not> (opt_deploy i \<and> opt_bootstrap_disable_add_model i) \<longrightarrow>
          list_all (\<lambda>c. \<not> is_juju ''add-model'' c) xs))"
proof
  show "Juju_process env i = Juju_process env (i\<lparr>opt_bootstrap := False\<rparr>)"
    using reuse
    by (simp add: Juju_process_def bootstrap_flag_steps bootstrap_flag_deploy
        bootstrap_flag_commands when_do_False)
next
  let ?P = "\<lambda>c. \<not> is_juju ''bootstrap'' c \<and>
                (\<not> opt_teardown i \<longrightarrow> \<not> is_juju ''destroy-controller'' c) \<and>
                (\<not> (opt_deploy i \<and> opt_bootstrap_disable_add_model i) \<longrightarrow> \<not> is_juju ''add-model'' c)"
  have "traced (Juju_process env i) (only ?P)"
  proof (cases "truthy (opt_bootstrap_run i)")
    case True
    then show ?thesis by (simp add: Juju_process_def only_run)
  next
    case False
    then show ?thesis
      unfolding Juju_process_def using reuse
      by (simp add: when_do_False seq_skip_left)
         (intro only_seq only_when only_add_model only_deploy only_config_loop only_wait
            only_teardown; simp)
  qed
  from tracedD [OF this, where w = w]
  show "\<exists>xs. ops (snd (Juju_process env i w)) = ops w @ xs \<and>
       list_all (\<lambda>c. \<not> is_juju ''bootstrap'' c) xs \<and>
       (\<not> opt_teardown i \<longrightarrow> list_all (\<lambda>c. \<not> is_juju ''destroy-controller'' c) xs) \<and>
       (\<not> (opt_deploy i \<and> opt_bootstrap_disable_add_model i) \<longrightarrow>
          list_all (\<lambda>c. \<not> is_juju ''add-model'' c) xs)"
    by (auto simp: list_all_iff)
qed

theorem reuse_skips_bootstrap_witness:
  "opt_deploy_reuse (example_intent\<lparr>opt_deploy_reuse := True\<rparr>) \<and>
   opt_bootstrap (example_intent\<lparr>opt_deploy_reuse := True\<rparr>) \<and>
   ops (snd (Juju_process example_environment
               (example_intent\<lparr>opt_deploy_reuse := True\<rparr>) empty_world)) =
     [ShCharm [''pull'', ''cs:~org/bundle'', ''--channel'', ''edge'', ''/tmp/426614174000''],
      CmdOk ''juju deploy -m c1:m1 /tmp/426614174000/bundle.yaml --channel edge'',
      ShJujuWait [''-e'', ''c1:m1'', ''-w'', ''-r3''] (Some 10)]"
  using reuse_skips_bootstrap [of "example_intent\<lparr>opt_deploy_reuse := True\<rparr>" example_environment empty_world]
  by (simp add: fixture_defs model_defs)

text \<open>
  C10. For a charm target with no bundle the argument list is \<open>-m\<close>, controller:model
  and the charm, followed by the channel, constraints, series and force flags that are
  set: the overlay adds nothing to it, no file is written, and the one command issued is
  the deploy with this list.
\<close>

theorem charm_target_ignores_overlay:
  assumes "truthy (opt_deploy_charm i)" and "\<not> truthy (opt_deploy_bundle i)"
  shows "deploy_cmd_args env i w =
           (Inr ([''-m'', fmt_controller_model i, the (opt_deploy_charm i)] @
                 (if truthy (opt_deploy_channel i)
                  then [''--channel'', the (opt_deploy_channel i)] else []) @
                 (if truthy (opt_deploy_constraints i)
                  then [''--constraints'', single_quoted (the (opt_deploy_constraints i))] else []) @
                 (if truthy (opt_deploy_series i)
                  then [''--series'', the (opt_deploy_series i)] else []) @
                 (if opt_force i then [''--force''] else [])), w) \<and>
         files (snd (Juju_deploy env i w)) = files w \<and>
         (\<exists>args. fst (deploy_cmd_args env i w) = Inr args \<and>
            ops (snd (Juju_deploy env i w)) = ops w @ [deploy_command args])"
proof -
  let ?args = "[''-m'', fmt_controller_model i, the (opt_deploy_charm i)] @ deploy_flags i"
  have t: "deploy_target env i w =
      (Inr [''-m'', fmt_controller_model i, the (opt_deploy_charm i)], w)"
    using assms(1) by (simp add: deploy_target_def)
  have o: "deploy_overlay env i [''-m'', fmt_controller_model i, the (opt_deploy_charm i)] w =
      ([''-m'', fmt_controller_model i, the (opt_deploy_charm i)], w)"
    using assms(2) by (simp add: deploy_overlay_def)
  have a: "deploy_cmd_args env i w = (Inr ?args, w)"
    by (simp add: deploy_cmd_args_def t o)
  have d: "files (snd (Juju_deploy env i w)) = files w \<and>
      ops (snd (Juju_deploy env i w)) = ops w @ [deploy_command ?args]"
    by (cases "runner env (ops w) (deploy_command ?args)")
       (simp_all add: Juju_deploy_def a call_def)
  from a d show ?thesis by (simp add: deploy_flags_def)
qed

theorem charm_target_ignores_overlay_witness:
  "truthy (opt_deploy_charm charm_intent) \<and> \<not> truthy (opt_deploy_bundle charm_intent) \<and>
   truthy (opt_deploy_overlay charm_intent) \<and>
   Juju_deploy example_environment charm_intent empty_world =
     (Inr (),
      \<lparr>ops = [deploy_command [''-m'', ''c1:m1'', ''cs:etcd'', ''--channel'', ''edge'',
                 ''--constraints'', single_quoted ''mem=4G'', ''--series'', ''focal'', ''--force'']],
       files = [], executables = []\<rparr>)"
  using charm_target_ignores_overlay [of charm_intent example_environment empty_world]
  by (simp add: charm_intent_def fixture_defs model_defs)

end
